theory Spec2Isabelle
  imports Main "HOL-Library.Sublist"
begin

section \<open>Strings and characters\<close>

text \<open>
  JavaScript strings are modelled as \<^typ>\<open>string\<close>. Characters outside ASCII are carried
  as their UTF-8 bytes; the character classes of the script's regular expressions
  (\<^verbatim>\<open>[a-zA-Z0-9-]\<close>, \<^verbatim>\<open>\b\<close>, \<^verbatim>\<open>\s\<close>, \<^verbatim>\<open>[^>]\<close>, quotes, newline) and the case mapping
  are given on ASCII, so non-ASCII white space and non-ASCII letter case are outside
  the model.
\<close>

definition check_mark :: string where
  "check_mark = [CHR 0xE2, CHR 0x9C, CHR 0x93]"

definition bullet :: string where
  "bullet = [CHR 0xE2, CHR 0x80, CHR 0xA2]"

definition newline :: char where
  "newline = CHR 0x0A"

definition upper_letters :: string where
  "upper_letters = ''ABCDEFGHIJKLMNOPQRSTUVWXYZ''"

definition lower_letters :: string where
  "lower_letters = ''abcdefghijklmnopqrstuvwxyz''"

definition digit_chars :: string where
  "digit_chars = ''0123456789''"

definition lower_char :: "char \<Rightarrow> char" where
  "lower_char c = (case map_of (zip upper_letters lower_letters) c of Some l \<Rightarrow> l | None \<Rightarrow> c)"

text \<open>\<^verbatim>\<open>String.prototype.toLowerCase\<close>\<close>

definition toLowerCase :: "string \<Rightarrow> string" where
  "toLowerCase s = map lower_char s"

text \<open>\<^verbatim>\<open>String.prototype.includes\<close>: the argument occurs as a contiguous substring.\<close>

fun str_includes :: "string \<Rightarrow> string \<Rightarrow> bool" where
  "str_includes [] sub = (sub = [])"
| "str_includes (c # cs) sub = (prefix sub (c # cs) \<or> str_includes cs sub)"

text \<open>Truthiness of a value that is a string, \<^verbatim>\<open>undefined\<close> or \<^verbatim>\<open>null\<close>.\<close>

fun truthy :: "string option \<Rightarrow> bool" where
  "truthy None = False"
| "truthy (Some s) = (s \<noteq> [])"

text \<open>\<^verbatim>\<open>a || b\<close> on such values: the left operand when it is truthy, else the right one.\<close>

definition js_or :: "string option \<Rightarrow> string option \<Rightarrow> string option" where
  "js_or a b = (if truthy a then a else b)"

section \<open>Data model\<close>

text \<open>
  The typedef \<^verbatim>\<open>SlackUser\<close> of the script. Fields the code reads through \<^verbatim>\<open>?.\<close> or
  \<^verbatim>\<open>||\<close> may be absent (\<^const>\<open>None\<close>); \<^verbatim>\<open>deleted\<close> and \<^verbatim>\<open>is_bot\<close> are read only for
  their truthiness.
\<close>

record slack_profile =
  display_name :: "string option"
  image_original :: "string option"
  image_512 :: "string option"
  image_192 :: "string option"
  image_72 :: "string option"

record slack_user =
  slack_id :: string
  name :: "string option"
  real_name :: "string option"
  profile :: "slack_profile option"
  deleted :: bool
  is_bot :: bool

text \<open>The typedef \<^verbatim>\<open>SlackUserProfile\<close>; a field is \<^const>\<open>None\<close> when it is \<^verbatim>\<open>undefined\<close>.\<close>

record slack_user_profile =
  username :: "string option"
  icon_url :: "string option"
  matched :: bool

text \<open>The fields of the GitHub user object that \<^verbatim>\<open>findSlackUser\<close> reads.\<close>

record github_user =
  login :: string
  gh_name :: "string option"
  email :: "string option"

text \<open>The bodies of the Slack responses \<^verbatim>\<open>users.info\<close>, \<^verbatim>\<open>users.lookupByEmail\<close> and \<^verbatim>\<open>users.list\<close>.\<close>

record user_response =
  ok :: bool
  user :: "slack_user option"

record list_response =
  list_ok :: bool
  members :: "slack_user list option"

text \<open>
  A thrown value, with its \<^verbatim>\<open>message\<close>: what \<^verbatim>\<open>fetch\<close>, \<^verbatim>\<open>Response.json\<close>, \<^verbatim>\<open>JSON.parse\<close>, a
  property read on \<^verbatim>\<open>null\<close> and the GitHub client throw are \<^verbatim>\<open>Error\<close> objects.
\<close>

datatype js_error = Error (message: string)

text \<open>
  The parameters of \<^verbatim>\<open>findSlackUser\<close> that are data; \<^verbatim>\<open>userMapping\<close> is optional.
\<close>

record lookup_params =
  githubUsername :: string
  slackToken :: string
  userMapping :: "string option"

text \<open>
  What the script calls and does not define: \<^verbatim>\<open>JSON.parse\<close> on the mapping followed by a
  property read (the parsed object as a map from its keys to the Slack ids, an error when
  the text is not JSON or parses to \<^verbatim>\<open>null\<close>, which makes the property read throw in the same
  \<^verbatim>\<open>try\<close> block), the three Slack endpoints (\<^verbatim>\<open>fetch\<close> followed by \<^verbatim>\<open>.json()\<close>, either of which
  may throw, as does reading a field of an answer that is \<^verbatim>\<open>null\<close>) and the GitHub client.
  The Slack calls take the token first. Each call is a function of its arguments: the same
  request gets the same answer.
\<close>

record environment =
  JSON_parse :: "string \<Rightarrow> js_error + (string \<rightharpoonup> string)"
  users_info :: "string \<Rightarrow> string \<Rightarrow> js_error + user_response"
  getByUsername :: "string \<Rightarrow> js_error + github_user"
  users_lookupByEmail :: "string \<Rightarrow> string \<Rightarrow> js_error + user_response"
  users_list :: "string \<Rightarrow> js_error + list_response"

section \<open>Statements with effects\<close>

text \<open>
  What a caller can observe of a run: the external requests, in order, and the lines
  written through \<^verbatim>\<open>core.info\<close> and \<^verbatim>\<open>core.warning\<close>, which only write and do not throw.
\<close>

datatype event =
    FetchUsersInfo string string
  | GetByUsername string
  | FetchLookupByEmail string string
  | FetchUsersList string
  | CoreInfo string
  | CoreWarning string

text \<open>
  A block of statements ends by returning a value, by falling off its end, or by
  throwing.
\<close>

datatype 'a completion = Return 'a | Normal | Throw js_error

type_synonym 'a stmt = "'a completion \<times> event list"

definition then_do :: "'a stmt \<Rightarrow> 'a stmt \<Rightarrow> 'a stmt" where
  "then_do s t = (case s of
       (Normal, tr) \<Rightarrow> (case t of (c, tr') \<Rightarrow> (c, tr @ tr'))
     | (Return v, tr) \<Rightarrow> (Return v, tr)
     | (Throw e, tr) \<Rightarrow> (Throw e, tr))"

definition try_catch :: "'a stmt \<Rightarrow> (js_error \<Rightarrow> 'a stmt) \<Rightarrow> 'a stmt" where
  "try_catch s handler = (case s of
       (Throw e, tr) \<Rightarrow> (case handler e of (c, tr') \<Rightarrow> (c, tr @ tr'))
     | (Return v, tr) \<Rightarrow> (Return v, tr)
     | (Normal, tr) \<Rightarrow> (Normal, tr))"

text \<open>An awaited external call: the request is observed, then it throws or yields a value.\<close>

definition await :: "event \<Rightarrow> js_error + 'v \<Rightarrow> ('v \<Rightarrow> 'a stmt) \<Rightarrow> 'a stmt" where
  "await ev r k = (case r of
       Inl e \<Rightarrow> (Throw e, [ev])
     | Inr v \<Rightarrow> (case k v of (c, tr) \<Rightarrow> (c, ev # tr)))"

definition core_info :: "string \<Rightarrow> 'a stmt" where
  "core_info msg = (Normal, [CoreInfo msg])"

definition core_warning :: "string \<Rightarrow> 'a stmt" where
  "core_warning msg = (Normal, [CoreWarning msg])"

definition return :: "'a \<Rightarrow> 'a stmt" where
  "return v = (Return v, [])"

definition skip :: "'a stmt" where
  "skip = (Normal, [])"

section \<open>findSlackUser\<close>

text \<open>Step 1, the body of the inner \<^verbatim>\<open>try\<close>.\<close>

definition manual_mapping_try :: "environment \<Rightarrow> lookup_params \<Rightarrow> string \<Rightarrow> slack_user option stmt" where
  "manual_mapping_try env p mappingText =
     (case JSON_parse env mappingText of
        Inl e \<Rightarrow> (Throw e, [])
      | Inr mapping \<Rightarrow>
          (case mapping (githubUsername p) of
             None \<Rightarrow> skip
           | Some slackUserId \<Rightarrow>
               if slackUserId \<noteq> [] then
                 await (FetchUsersInfo (slackToken p) slackUserId)
                   (users_info env (slackToken p) slackUserId)
                   (\<lambda>userData.
                      if ok userData \<and> user userData \<noteq> None then
                        then_do
                          (core_info (check_mark @ '' Matched '' @ githubUsername p @ '' via manual mapping''))
                          (return (user userData))
                      else skip)
               else skip))"

text \<open>Step 1 with its guard and its \<^verbatim>\<open>catch\<close>.\<close>

definition manual_mapping :: "environment \<Rightarrow> lookup_params \<Rightarrow> slack_user option stmt" where
  "manual_mapping env p =
     (case userMapping p of
        None \<Rightarrow> skip
      | Some mappingText \<Rightarrow>
          if mappingText \<noteq> [] then
            try_catch (manual_mapping_try env p mappingText)
              (\<lambda>err. core_warning (''Failed to parse user mapping: '' @ message err))
          else skip)"

text \<open>Step 3, the email lookup.\<close>

definition email_lookup :: "environment \<Rightarrow> lookup_params \<Rightarrow> github_user \<Rightarrow> slack_user option stmt" where
  "email_lookup env p githubUser =
     (case email githubUser of
        None \<Rightarrow> skip
      | Some addr \<Rightarrow>
          if addr \<noteq> [] then
            try_catch
              (await (FetchLookupByEmail (slackToken p) addr)
                 (users_lookupByEmail env (slackToken p) addr)
                 (\<lambda>emailData.
                    if ok emailData \<and> user emailData \<noteq> None then
                      then_do
                        (core_info (check_mark @ '' Matched '' @ githubUsername p @ '' by email''))
                        (return (user emailData))
                    else skip))
              (\<lambda>err. core_warning (''Email lookup failed: '' @ message err))
          else skip)"

text \<open>The predicate handed to \<^verbatim>\<open>members.find\<close> in step 4.\<close>

definition name_matches :: "string \<Rightarrow> string \<Rightarrow> slack_user \<Rightarrow> bool" where
  "name_matches githubName ghUsername member =
     (\<not> deleted member \<and> \<not> is_bot member \<and>
      ((case real_name member of
          None \<Rightarrow> False
        | Some rn \<Rightarrow> str_includes (toLowerCase rn) (toLowerCase githubName)) \<or>
       (case profile member of
          None \<Rightarrow> False
        | Some pr \<Rightarrow>
            (case display_name pr of
               None \<Rightarrow> False
             | Some dn \<Rightarrow> str_includes (toLowerCase dn) (toLowerCase githubName))) \<or>
       (case name member of
          None \<Rightarrow> False
        | Some n \<Rightarrow> toLowerCase n = toLowerCase ghUsername)))"

text \<open>\<^verbatim>\<open>githubUser.name || githubUser.login\<close>\<close>

definition github_display_name :: "github_user \<Rightarrow> string" where
  "github_display_name githubUser =
     (case gh_name githubUser of
        None \<Rightarrow> login githubUser
      | Some n \<Rightarrow> if n \<noteq> [] then n else login githubUser)"

text \<open>Step 4, the search by name.\<close>

definition name_search :: "environment \<Rightarrow> lookup_params \<Rightarrow> github_user \<Rightarrow> slack_user option stmt" where
  "name_search env p githubUser =
     await (FetchUsersList (slackToken p)) (users_list env (slackToken p))
       (\<lambda>listData.
          case (if list_ok listData then members listData else None) of
            None \<Rightarrow> skip
          | Some ms \<Rightarrow>
              (case find (name_matches (github_display_name githubUser) (githubUsername p)) ms of
                 None \<Rightarrow> skip
               | Some slackUser \<Rightarrow>
                   then_do
                     (core_info (check_mark @ '' Matched '' @ githubUsername p @ '' by name''))
                     (return (Some slackUser))))"

definition findSlackUser :: "environment \<Rightarrow> lookup_params \<Rightarrow> slack_user option stmt" where
  "findSlackUser env p =
     try_catch
       (then_do (manual_mapping env p)
          (await (GetByUsername (githubUsername p)) (getByUsername env (githubUsername p))
             (\<lambda>githubUser.
                then_do (email_lookup env p githubUser)
                  (then_do (name_search env p githubUser)
                     (then_do
                        (core_warning (''Could not find Slack user for '' @ githubUsername p))
                        (return None))))))
       (\<lambda>err.
          then_do
            (core_warning (''Failed to lookup '' @ githubUsername p @ '': '' @ message err))
            (return None))"

section \<open>getSlackUserProfile\<close>

text \<open>\<^verbatim>\<open>slackUser.profile?.f\<close>\<close>

definition profile_field :: "(slack_profile \<Rightarrow> string option) \<Rightarrow> slack_user \<Rightarrow> string option" where
  "profile_field f slackUser = (case profile slackUser of None \<Rightarrow> None | Some pr \<Rightarrow> f pr)"

definition getSlackUserProfile :: "slack_user option \<Rightarrow> slack_user_profile" where
  "getSlackUserProfile slackUser =
     (case slackUser of
        None \<Rightarrow> \<lparr>username = Some [], icon_url = Some [], matched = False\<rparr>
      | Some u \<Rightarrow>
          (let displayName = js_or (profile_field display_name u) (js_or (real_name u) (name u));
               avatar = js_or (profile_field image_original u)
                          (js_or (profile_field image_512 u)
                             (js_or (profile_field image_192 u) (profile_field image_72 u)))
           in \<lparr>username = displayName, icon_url = avatar, matched = True\<rparr>))"

section \<open>Regular expressions\<close>

text \<open>
  A pattern is given by what it matches at the head of a string: the length of the match,
  when there is one. Every pattern of the script consumes at least one character, so the
  scan below does not treat empty matches: after a match of length \<open>n\<close> it goes on behind
  the match, otherwise one character further.
\<close>

type_synonym matcher = "string \<Rightarrow> nat option"

text \<open>\<^verbatim>\<open>text.match(re)\<close> and \<^verbatim>\<open>text.matchAll(re)\<close> for a global pattern: the matched texts, left to right.\<close>

fun match_all :: "matcher \<Rightarrow> string \<Rightarrow> string list" where
  "match_all m [] = []"
| "match_all m (c # cs) =
     (case m (c # cs) of
        None \<Rightarrow> match_all m cs
      | Some n \<Rightarrow> take n (c # cs) # match_all m (drop (n - 1) cs))"

text \<open>
  The replacement text of \<^verbatim>\<open>String.prototype.replace\<close> for a pattern without capture
  groups: \<^verbatim>\<open>$$\<close> is a dollar sign, \<^verbatim>\<open>$&\<close> the match, \<^verbatim>\<open>$`\<close> the text before it and \<^verbatim>\<open>$'\<close> the
  text after it; every other character stands for itself.
\<close>

fun get_substitution :: "string \<Rightarrow> string \<Rightarrow> string \<Rightarrow> string \<Rightarrow> string" where
  "get_substitution [] matchedText preceding following = []"
| "get_substitution [c] matchedText preceding following = [c]"
| "get_substitution (c # d # r) matchedText preceding following =
     (if c = CHR ''$'' then
        (if d = CHR ''$'' then CHR ''$'' # get_substitution r matchedText preceding following
         else if d = CHR ''&'' then matchedText @ get_substitution r matchedText preceding following
         else if d = CHR 0x60 then preceding @ get_substitution r matchedText preceding following
         else if d = CHR 0x27 then following @ get_substitution r matchedText preceding following
         else c # get_substitution (d # r) matchedText preceding following)
      else c # get_substitution (d # r) matchedText preceding following)"

text \<open>\<^verbatim>\<open>text.replace(re, replacement)\<close> for a global pattern; \<open>preceding\<close> is the text already passed.\<close>

fun replace_from :: "matcher \<Rightarrow> string \<Rightarrow> string \<Rightarrow> string \<Rightarrow> string" where
  "replace_from m replacement preceding [] = []"
| "replace_from m replacement preceding (c # cs) =
     (case m (c # cs) of
        None \<Rightarrow> c # replace_from m replacement (preceding @ [c]) cs
      | Some n \<Rightarrow>
          get_substitution replacement (take n (c # cs)) preceding (drop n (c # cs)) @
          replace_from m replacement (preceding @ take n (c # cs)) (drop (n - 1) cs))"

definition js_replace :: "matcher \<Rightarrow> string \<Rightarrow> string \<Rightarrow> string" where
  "js_replace m replacement text = replace_from m replacement [] text"

text \<open>
  \<^verbatim>\<open>text.match(re)\<close> for a pattern that is not global, given by the text of its first
  capture group when it matches at the head: the capture of the leftmost match.
\<close>

fun first_match :: "(string \<Rightarrow> string option) \<Rightarrow> string \<Rightarrow> string option" where
  "first_match f [] = None"
| "first_match f (c # cs) = (case f (c # cs) of Some v \<Rightarrow> Some v | None \<Rightarrow> first_match f cs)"

definition is_mention_char :: "char \<Rightarrow> bool" where
  "is_mention_char c = (c \<in> set (lower_letters @ upper_letters @ digit_chars @ ''-''))"

text \<open>The class \<^verbatim>\<open>\w\<close>, which decides \<^verbatim>\<open>\b\<close>.\<close>

definition is_word_char :: "char \<Rightarrow> bool" where
  "is_word_char c = (c \<in> set (lower_letters @ upper_letters @ digit_chars @ ''_''))"

text \<open>The class \<^verbatim>\<open>\s\<close> and the characters removed by \<^verbatim>\<open>trim\<close>, on ASCII.\<close>

definition is_space :: "char \<Rightarrow> bool" where
  "is_space c = (c \<in> set [CHR 0x09, CHR 0x0A, CHR 0x0B, CHR 0x0C, CHR 0x0D, CHR 0x20])"

definition is_quote :: "char \<Rightarrow> bool" where
  "is_quote c = (c = CHR 0x22 \<or> c = CHR 0x27)"

text \<open>\<^verbatim>\<open>/@([a-zA-Z0-9-]+)/g\<close>\<close>

definition mentionPattern :: matcher where
  "mentionPattern s =
     (case s of
        [] \<Rightarrow> None
      | c # cs \<Rightarrow>
          if c = CHR ''@'' \<and> takeWhile is_mention_char cs \<noteq> []
          then Some (Suc (length (takeWhile is_mention_char cs)))
          else None)"

text \<open>
  \<^verbatim>\<open>\b\<close> between the text a match has consumed and the rest of the input: exactly one of
  the two neighbouring characters is a word character.
\<close>

definition at_word_boundary :: "string \<Rightarrow> string \<Rightarrow> bool" where
  "at_word_boundary consumed rest =
     ((consumed \<noteq> [] \<and> is_word_char (last consumed)) \<noteq> (rest \<noteq> [] \<and> is_word_char (hd rest)))"

text \<open>
  \<^verbatim>\<open>new RegExp(`@${githubUsername}\\b`, 'g')\<close>. The user name comes from the capture of
  \<^const>\<open>mentionPattern\<close>, so none of its characters is special in a pattern.
\<close>

definition mention_word_pattern :: "string \<Rightarrow> matcher" where
  "mention_word_pattern ghUsername s =
     (let lit = CHR ''@'' # ghUsername
      in if prefix lit s \<and> at_word_boundary lit (drop (length lit) s)
         then Some (length lit) else None)"

text \<open>\<^verbatim>\<open>/<img\s+[^>]*\/?>/gi\<close>: the tag ends at the first \<^verbatim>\<open>>\<close> behind \<^verbatim>\<open><img\<close> and white space.\<close>

definition imgTagPattern :: matcher where
  "imgTagPattern s =
     (if toLowerCase (take 4 s) = ''<img'' then
        (let r = drop 4 s
         in if r \<noteq> [] \<and> is_space (hd r) \<and> CHR ''>'' \<in> set r
            then Some (4 + length (takeWhile (\<lambda>c. c \<noteq> CHR ''>'') r) + 1)
            else None)
      else None)"

text \<open>
  \<^verbatim>\<open>/src=["']([^"']+)["']/i\<close> and \<^verbatim>\<open>/alt=["']([^"']+)["']/i\<close> at the head of a string, with
  \<open>key\<close> the attribute name and the equals sign in lower case: the capture.
\<close>

definition attr_at :: "string \<Rightarrow> string \<Rightarrow> string option" where
  "attr_at key s =
     (if toLowerCase (take (length key) s) = key then
        (case drop (length key) s of
           [] \<Rightarrow> None
         | q # r \<Rightarrow>
             if is_quote q then
               (let v = takeWhile (\<lambda>c. \<not> is_quote c) r
                in if v \<noteq> [] \<and> length v < length r then Some v else None)
             else None)
      else None)"

text \<open>\<^verbatim>\<open>/\n{3,}/g\<close>\<close>

definition newlines3 :: matcher where
  "newlines3 s =
     (let n = length (takeWhile (\<lambda>c. c = newline) s)
      in if 3 \<le> n then Some n else None)"

text \<open>The length of the run of newlines at the head of a string.\<close>

definition lead :: "string \<Rightarrow> nat" where
  "lead s = length (takeWhile (\<lambda>c. c = newline) s)"

text \<open>\<^verbatim>\<open>String.prototype.trim\<close>\<close>

definition trim :: "string \<Rightarrow> string" where
  "trim s = rev (dropWhile is_space (rev (dropWhile is_space s)))"

text \<open>A number in a template string, and \<^verbatim>\<open>Array.prototype.join\<close>.\<close>

fun show_nat :: "nat \<Rightarrow> string" where
  "show_nat n =
     (if n < 10 then [digit_chars ! n]
      else show_nat (n div 10) @ [digit_chars ! (n mod 10)])"

declare show_nat.simps [simp del]

fun join :: "string \<Rightarrow> string list \<Rightarrow> string" where
  "join sep [] = []"
| "join sep [x] = x"
| "join sep (x # y # ys) = x @ sep @ join sep (y # ys)"

section \<open>processMentions\<close>

text \<open>
  The loop over the matches, with the text rewritten so far. It ends with the final
  text, or with what \<^verbatim>\<open>findSlackUser\<close> threw.
\<close>

fun mention_loop ::
  "environment \<Rightarrow> string \<Rightarrow> string option \<Rightarrow> string list \<Rightarrow> string \<Rightarrow> (js_error + string) \<times> event list"
where
  "mention_loop env tok mapping [] processedText = (Inr processedText, [])"
| "mention_loop env tok mapping (ghUsername # rest) processedText =
     (case findSlackUser env \<lparr>githubUsername = ghUsername, slackToken = tok, userMapping = mapping\<rparr> of
        (Throw e, tr) \<Rightarrow> (Inl e, tr)
      | (Return (Some slackUser), tr) \<Rightarrow>
          (let tag = ''<@'' @ slack_id slackUser @ ''>'';
               replaced = js_replace (mention_word_pattern ghUsername) tag processedText
           in case mention_loop env tok mapping rest replaced of
                (r, tr') \<Rightarrow>
                  (r, tr @ [CoreInfo (check_mark @ '' Tagged '' @ ghUsername @ '' as '' @ tag)] @ tr'))
      | (Return None, tr) \<Rightarrow>
          (case mention_loop env tok mapping rest processedText of (r, tr') \<Rightarrow> (r, tr @ tr'))
      | (Normal, tr) \<Rightarrow>
          (case mention_loop env tok mapping rest processedText of (r, tr') \<Rightarrow> (r, tr @ tr')))"

definition processMentions :: "environment \<Rightarrow> string \<Rightarrow> string \<Rightarrow> string option \<Rightarrow> string stmt" where
  "processMentions env text tok mapping =
     (let mentions = map tl (match_all mentionPattern text)
      in if mentions \<noteq> [] then
           (case mention_loop env tok mapping mentions text of
              (r, tr) \<Rightarrow>
                ((case r of Inl e \<Rightarrow> Throw e | Inr processedText \<Rightarrow> Return processedText),
                 CoreInfo (''Found '' @ show_nat (length mentions) @ '' mention(s): '' @ join '', '' mentions) # tr))
         else (Return text, []))"

section \<open>Image extraction and the block builders\<close>

text \<open>
  A Slack block: a section with its \<^verbatim>\<open>mrkdwn\<close> text, an image with its URL and alternative
  text, or a context block with the text of its single \<^verbatim>\<open>mrkdwn\<close> element.
\<close>

datatype block =
    Section string
  | Image (image_url: string) (alt_text: string)
  | Context string

record image_extraction_result =
  textWithoutImages :: string
  imageBlocks :: "block list"

text \<open>The loop over the matched tags, pushing onto \<open>blocks\<close>.\<close>

fun image_loop :: "string list \<Rightarrow> block list \<Rightarrow> block list" where
  "image_loop [] blocks = blocks"
| "image_loop (imgTag # rest) blocks =
     (let srcMatch = first_match (attr_at ''src='') imgTag;
          altMatch = first_match (attr_at ''alt='') imgTag
      in case srcMatch of
           None \<Rightarrow> image_loop rest blocks
         | Some src \<Rightarrow>
             if src \<noteq> [] then
               image_loop rest
                 (blocks @ [Image src (case altMatch of Some alt \<Rightarrow> alt | None \<Rightarrow> ''Image'')])
             else image_loop rest blocks)"


definition extractAndConvertImages :: "string \<Rightarrow> image_extraction_result" where
  "extractAndConvertImages text =
     \<lparr>textWithoutImages =
        trim (js_replace newlines3 [newline, newline] (js_replace imgTagPattern [] text)),
      imageBlocks = image_loop (match_all imgTagPattern text) []\<rparr>"

definition buildCommentBlocks :: "string \<Rightarrow> string \<Rightarrow> string \<Rightarrow> string \<Rightarrow> string \<Rightarrow> block list" where
  "buildCommentBlocks commentBody issueUrl issueTitle commentUrl commentAuthor =
     (let extracted = extractAndConvertImages commentBody
      in (if textWithoutImages extracted \<noteq> [] then [Section (textWithoutImages extracted)] else []) @
         imageBlocks extracted @
         [Context (''<'' @ issueUrl @ ''|'' @ issueTitle @ ''> '' @ bullet @ '' <'' @ commentUrl @
                   ''|View comment> '' @ bullet @ '' '' @ commentAuthor)])"

definition buildReviewRequestBlocks ::
  "string \<Rightarrow> string \<Rightarrow> string \<Rightarrow> string \<Rightarrow> string \<Rightarrow> string \<Rightarrow> string \<Rightarrow> block list"
where
  "buildReviewRequestBlocks reviewerTag prUrl prTitle prBody prNumber requestSender requestedReviewer =
     (let extracted = extractAndConvertImages (trim prBody);
          descriptionText =
            (if textWithoutImages extracted \<noteq> [] then newline # textWithoutImages extracted else [])
      in [Section (''New PR review requested to '' @ reviewerTag @ [newline] @ ''*<'' @ prUrl @ ''|'' @
                   prTitle @ ''>*'' @ descriptionText)] @
         imageBlocks extracted @
         [Context (''<'' @ prUrl @ ''|#'' @ prNumber @ ''> '' @ bullet @ '' '' @ requestSender @
                   '' requested review from '' @ requestedReviewer)])"

definition buildReviewBlocks ::
  "string \<Rightarrow> string \<Rightarrow> string \<Rightarrow> string \<Rightarrow> string \<Rightarrow> string \<Rightarrow> string \<Rightarrow> block list"
where
  "buildReviewBlocks reviewEmoji reviewAction reviewBody prUrl prTitle reviewUrl reviewer =
     (let extracted = extractAndConvertImages reviewBody;
          mainText =
            (if textWithoutImages extracted \<noteq> []
             then reviewEmoji @ '' *'' @ reviewAction @ ''*'' @ [newline] @ textWithoutImages extracted
             else reviewEmoji @ '' *'' @ reviewAction @ ''*'')
      in [Section mainText] @
         imageBlocks extracted @
         [Context (''<'' @ prUrl @ ''|'' @ prTitle @ ''> '' @ bullet @ '' <'' @ reviewUrl @
                   ''|View review> '' @ bullet @ '' '' @ reviewer)])"

text \<open>The three kinds of block.\<close>

fun is_section :: "block \<Rightarrow> bool" where
  "is_section (Section t) = True"
| "is_section b = False"

fun is_image :: "block \<Rightarrow> bool" where
  "is_image (Image u a) = True"
| "is_image b = False"

fun is_context :: "block \<Rightarrow> bool" where
  "is_context (Context t) = True"
| "is_context b = False"

section \<open>Observing a run\<close>

text \<open>Which requests of a run belong to the email lookup, to the name search, to GitHub.\<close>

fun is_email_request :: "event \<Rightarrow> bool" where
  "is_email_request (FetchLookupByEmail t e) = True"
| "is_email_request ev = False"

fun is_list_request :: "event \<Rightarrow> bool" where
  "is_list_request (FetchUsersList t) = True"
| "is_list_request ev = False"

fun is_github_request :: "event \<Rightarrow> bool" where
  "is_github_request (GetByUsername u) = True"
| "is_github_request ev = False"

section \<open>Example inputs\<close>

text \<open>
  A Slack member, a mapping that names it, a text that is no mapping, and two
  environments: one where the mapping resolves and nothing else answers, one where every
  request fails.
\<close>

definition octocat_slack :: slack_user where
  "octocat_slack =
     \<lparr>slack_id = ''U12345678'', name = Some ''octocat'', real_name = Some ''Octo Cat'',
      profile = Some \<lparr>display_name = Some '''', image_original = None,
                      image_512 = Some ''https://avatars.example/512.png'',
                      image_192 = Some ''https://avatars.example/192.png'', image_72 = None\<rparr>,
      deleted = False, is_bot = False\<rparr>"

definition octocat_mapping :: string where
  \<open>octocat_mapping = ''{"octocat": "U12345678"}''\<close>

text \<open>A mapping text that is not JSON: the keys and values lack their quotes.\<close>

definition malformed_mapping :: string where
  \<open>malformed_mapping = ''{octocat: U12345678}''\<close>

text \<open>
  What \<^verbatim>\<open>JSON.parse\<close> and the property read give on the mapping texts used below: the
  mapping, the empty object, and a syntax error for the text that is not JSON.
\<close>

definition parse_example :: "string \<Rightarrow> js_error + (string \<rightharpoonup> string)" where
  "parse_example s =
     (if s = octocat_mapping then Inr [''octocat'' \<mapsto> ''U12345678'']
      else if s = ''{}'' then Inr Map.empty
      else Inl (Error ''Unexpected token''))"

definition env_offline :: environment where
  "env_offline =
     \<lparr>JSON_parse = parse_example,
      users_info = (\<lambda>tok i. Inl (Error ''fetch failed'')),
      getByUsername = (\<lambda>u. Inl (Error ''Not Found'')),
      users_lookupByEmail = (\<lambda>tok addr. Inl (Error ''fetch failed'')),
      users_list = (\<lambda>tok. Inl (Error ''fetch failed''))\<rparr>"

definition env_mapped :: environment where
  \<open>env_mapped =
     \<lparr>JSON_parse = parse_example,
      users_info = (\<lambda>tok i. if i = ''U12345678''
                             then Inr \<lparr>ok = True, user = Some octocat_slack\<rparr>
                             else Inr \<lparr>ok = False, user = None\<rparr>),
      getByUsername = (\<lambda>u. Inl (Error ''Not Found'')),
      users_lookupByEmail = (\<lambda>tok addr. Inl (Error ''fetch failed'')),
      users_list = (\<lambda>tok. Inl (Error ''fetch failed''))\<rparr>\<close>

definition octocat_params :: lookup_params where
  \<open>octocat_params =
     \<lparr>githubUsername = ''octocat'', slackToken = ''xoxb-token'',
      userMapping = Some octocat_mapping\<rparr>\<close>

text \<open>
  A bot with the same handle, an environment where only GitHub and the member list answer,
  one where GitHub fails while the member list would answer, a request without a
  mapping, and a member whose names are all empty, with an environment that resolves the
  mapping to it.
\<close>

definition deploy_bot :: slack_user where
  "deploy_bot =
     \<lparr>slack_id = ''B00000001'', name = Some ''octocat'', real_name = Some ''Octo Cat Deploys'',
      profile = None, deleted = False, is_bot = True\<rparr>"

definition env_directory :: environment where
  "env_directory =
     \<lparr>JSON_parse = parse_example,
      users_info = (\<lambda>tok i. Inl (Error ''fetch failed'')),
      getByUsername = (\<lambda>u. Inr \<lparr>login = u, gh_name = Some ''octo cat'', email = Some ''octo@example.com''\<rparr>),
      users_lookupByEmail = (\<lambda>tok addr. Inl (Error ''fetch failed'')),
      users_list = (\<lambda>tok. Inr \<lparr>list_ok = True, members = Some [deploy_bot, octocat_slack]\<rparr>)\<rparr>"

definition env_github_down :: environment where
  "env_github_down =
     \<lparr>JSON_parse = parse_example,
      users_info = (\<lambda>tok i. Inl (Error ''fetch failed'')),
      getByUsername = (\<lambda>u. Inl (Error ''Not Found'')),
      users_lookupByEmail = (\<lambda>tok addr. Inl (Error ''fetch failed'')),
      users_list = (\<lambda>tok. Inr \<lparr>list_ok = True, members = Some [deploy_bot, octocat_slack]\<rparr>)\<rparr>"

definition unmapped_params :: lookup_params where
  "unmapped_params = \<lparr>githubUsername = ''octocat'', slackToken = ''xoxb-token'', userMapping = None\<rparr>"

text \<open>A request whose mapping is not JSON.\<close>

definition malformed_params :: lookup_params where
  "malformed_params =
     \<lparr>githubUsername = ''octocat'', slackToken = ''xoxb-token'',
      userMapping = Some malformed_mapping\<rparr>"

text \<open>
  An environment where every call answers, \<^verbatim>\<open>users.info\<close> and \<^verbatim>\<open>users.lookupByEmail\<close> with
  \<^verbatim>\<open>ok: false\<close> and no user.
\<close>

definition env_no_match :: environment where
  "env_no_match =
     \<lparr>JSON_parse = parse_example,
      users_info = (\<lambda>tok i. Inr \<lparr>ok = False, user = None\<rparr>),
      getByUsername = (\<lambda>u. Inr \<lparr>login = u, gh_name = None, email = Some ''octo@example.com''\<rparr>),
      users_lookupByEmail = (\<lambda>tok addr. Inr \<lparr>ok = False, user = None\<rparr>),
      users_list = (\<lambda>tok. Inr \<lparr>list_ok = True, members = Some [deploy_bot, octocat_slack]\<rparr>)\<rparr>"

definition nameless_slack :: slack_user where
  "nameless_slack =
     \<lparr>slack_id = ''U12345678'', name = Some [], real_name = Some [],
      profile = Some \<lparr>display_name = None, image_original = None, image_512 = None,
                      image_192 = None, image_72 = None\<rparr>,
      deleted = False, is_bot = False\<rparr>"

definition env_nameless :: environment where
  \<open>env_nameless =
     \<lparr>JSON_parse = parse_example,
      users_info = (\<lambda>tok i. Inr \<lparr>ok = True, user = Some nameless_slack\<rparr>),
      getByUsername = (\<lambda>u. Inl (Error ''Not Found'')),
      users_lookupByEmail = (\<lambda>tok addr. Inl (Error ''fetch failed'')),
      users_list = (\<lambda>tok. Inl (Error ''fetch failed''))\<rparr>\<close>

text \<open>Two members and an environment where only GitHub and the member list answer.\<close>

definition ann_slack :: slack_user where
  "ann_slack =
     \<lparr>slack_id = ''U1'', name = Some ''ann'', real_name = Some ''Ann Example'',
      profile = None, deleted = False, is_bot = False\<rparr>"

definition domain_slack :: slack_user where
  "domain_slack =
     \<lparr>slack_id = ''U2'', name = Some ''domain'', real_name = Some ''Dom Ain'',
      profile = None, deleted = False, is_bot = False\<rparr>"

definition env_team :: environment where
  "env_team =
     \<lparr>JSON_parse = parse_example,
      users_info = (\<lambda>tok i. Inl (Error ''fetch failed'')),
      getByUsername = (\<lambda>u. Inr \<lparr>login = u, gh_name = None, email = None\<rparr>),
      users_lookupByEmail = (\<lambda>tok addr. Inl (Error ''fetch failed'')),
      users_list = (\<lambda>tok. Inr \<lparr>list_ok = True, members = Some [ann_slack, domain_slack]\<rparr>)\<rparr>"

section \<open>Properties of the statement combinators\<close>

lemma octocat_mapping_nonempty: "octocat_mapping \<noteq> []"
  by (simp add: octocat_mapping_def)

lemma parse_example_octocat:
  "parse_example octocat_mapping = Inr [''octocat'' \<mapsto> ''U12345678'']"
  by (simp add: parse_example_def)

lemma parse_example_malformed:
  "parse_example malformed_mapping = Inl (Error ''Unexpected token'')"
  by (simp add: parse_example_def malformed_mapping_def octocat_mapping_def)

lemma find_Some_member: "find P xs = Some x \<Longrightarrow> x \<in> set xs \<and> P x"
  by (induction xs) (auto split: if_splits)

lemma fst_then_do:
  "fst (then_do s t) = (case fst s of Normal \<Rightarrow> fst t | Return v \<Rightarrow> Return v | Throw e \<Rightarrow> Throw e)"
  by (simp add: then_do_def split: prod.splits completion.splits)

lemma fst_try_catch:
  "fst (try_catch s h) = (case fst s of Throw e \<Rightarrow> fst (h e) | Return v \<Rightarrow> Return v | Normal \<Rightarrow> Normal)"
  by (simp add: try_catch_def split: prod.splits completion.splits)

lemma fst_await:
  "fst (await ev r k) = (case r of Inl e \<Rightarrow> Throw e | Inr v \<Rightarrow> fst (k v))"
  by (simp add: await_def split: prod.splits sum.splits)

lemma fst_basic [simp]:
  "fst (core_info msg) = Normal" "fst (core_warning msg) = Normal" "fst (return v) = Return v"
  "fst skip = Normal"
  by (simp_all add: core_info_def core_warning_def return_def skip_def)

lemmas stmt_defs = then_do_def try_catch_def await_def core_info_def core_warning_def return_def skip_def

lemma snd_then_do:
  "snd (then_do s t) = (case fst s of Normal \<Rightarrow> snd s @ snd t | Return v \<Rightarrow> snd s | Throw e \<Rightarrow> snd s)"
  by (simp add: then_do_def split: prod.splits completion.splits)

lemma snd_try_catch:
  "snd (try_catch s h) = (case fst s of Throw e \<Rightarrow> snd s @ snd (h e) | Return v \<Rightarrow> snd s | Normal \<Rightarrow> snd s)"
  by (simp add: try_catch_def split: prod.splits completion.splits)

lemma snd_await:
  "snd (await ev r k) = (case r of Inl e \<Rightarrow> [ev] | Inr v \<Rightarrow> ev # snd (k v))"
  by (simp add: await_def split: prod.splits sum.splits)

lemma snd_basic [simp]:
  "snd (core_info msg) = [CoreInfo msg]" "snd (core_warning msg) = [CoreWarning msg]"
  "snd (return v) = []" "snd (skip :: 'a stmt) = []"
  by (simp_all add: core_info_def core_warning_def return_def skip_def)

lemmas run_simps = fst_then_do fst_try_catch fst_await snd_then_do snd_try_catch snd_await

section \<open>The user resolver\<close>

text \<open>
  Claim C1. When the user name is a key of the mapping, its Slack id is not empty and
  \<^verbatim>\<open>users.info\<close> answers for that id with \<^verbatim>\<open>ok\<close> and a user, \<^verbatim>\<open>findSlackUser\<close> returns that
  user, and the run contains no request to GitHub, no email lookup and no member list
  request.
\<close>

theorem findSlackUser_manual_mapping_first:
  assumes "userMapping p = Some mappingText" and "mappingText \<noteq> []"
    and "JSON_parse env mappingText = Inr mapping"
    and "mapping (githubUsername p) = Some slackUserId" and "slackUserId \<noteq> []"
    and "users_info env (slackToken p) slackUserId = Inr userData"
    and "ok userData" and "user userData = Some u"
  shows "fst (findSlackUser env p) = Return (Some u) \<and>
         \<not> list_ex is_github_request (snd (findSlackUser env p)) \<and>
         \<not> list_ex is_email_request (snd (findSlackUser env p)) \<and>
         \<not> list_ex is_list_request (snd (findSlackUser env p))"
  using assms
  by (simp add: findSlackUser_def manual_mapping_def manual_mapping_try_def stmt_defs)

text \<open>The theorem at the mapping \<^verbatim>\<open>{"octocat": "U12345678"}\<close>.\<close>

theorem findSlackUser_manual_mapping_first_witness:
  "fst (findSlackUser env_mapped octocat_params) = Return (Some octocat_slack) \<and>
   \<not> list_ex is_github_request (snd (findSlackUser env_mapped octocat_params)) \<and>
   \<not> list_ex is_email_request (snd (findSlackUser env_mapped octocat_params)) \<and>
   \<not> list_ex is_list_request (snd (findSlackUser env_mapped octocat_params))"
  by (rule findSlackUser_manual_mapping_first [where mappingText = octocat_mapping
        and mapping = "[''octocat'' \<mapsto> ''U12345678'']" and slackUserId = "''U12345678''"
        and userData = "\<lparr>ok = True, user = Some octocat_slack\<rparr>"])
     (simp_all add: env_mapped_def octocat_params_def octocat_mapping_nonempty parse_example_octocat)

text \<open>
  Claim C3. \<^verbatim>\<open>findSlackUser\<close> never throws: every run ends by returning a user or \<^verbatim>\<open>null\<close>.
  When no \<^verbatim>\<open>users.info\<close> and no \<^verbatim>\<open>users.lookupByEmail\<close> answer carries a user and no listed
  member matches by name (in particular when every call fails), it returns \<^verbatim>\<open>null\<close>.
\<close>

theorem findSlackUser_never_raises:
  "(\<exists>r. fst (findSlackUser env p) = Return r) \<and>
   ((\<forall>sid d. users_info env (slackToken p) sid = Inr d \<longrightarrow> \<not> (ok d \<and> user d \<noteq> None)) \<and>
    (\<forall>addr d. users_lookupByEmail env (slackToken p) addr = Inr d \<longrightarrow> \<not> (ok d \<and> user d \<noteq> None)) \<and>
    (\<forall>gu d ms. getByUsername env (githubUsername p) = Inr gu \<and>
        users_list env (slackToken p) = Inr d \<and> list_ok d \<and> members d = Some ms \<longrightarrow>
        (\<forall>m \<in> set ms. \<not> name_matches (github_display_name gu) (githubUsername p) m))
    \<longrightarrow> fst (findSlackUser env p) = Return None)"
proof (intro conjI impI)
  show "\<exists>r. fst (findSlackUser env p) = Return r"
    by (auto simp: findSlackUser_def stmt_defs split: prod.splits completion.splits sum.splits)
next
  assume h: "(\<forall>sid d. users_info env (slackToken p) sid = Inr d \<longrightarrow> \<not> (ok d \<and> user d \<noteq> None)) \<and>
    (\<forall>addr d. users_lookupByEmail env (slackToken p) addr = Inr d \<longrightarrow> \<not> (ok d \<and> user d \<noteq> None)) \<and>
    (\<forall>gu d ms. getByUsername env (githubUsername p) = Inr gu \<and>
        users_list env (slackToken p) = Inr d \<and> list_ok d \<and> members d = Some ms \<longrightarrow>
        (\<forall>m \<in> set ms. \<not> name_matches (github_display_name gu) (githubUsername p) m))"
  have t1: "fst (manual_mapping env p) = Normal"
    using h by (auto simp: manual_mapping_def manual_mapping_try_def stmt_defs split: option.splits sum.splits)
  have t2: "fst (email_lookup env p gu) = Normal" for gu
    using h by (auto simp: email_lookup_def stmt_defs split: option.splits sum.splits)
  have t3: "fst (name_search env p gu) \<noteq> Return r" if "getByUsername env (githubUsername p) = Inr gu" for gu r
    using h that by (auto simp: name_search_def stmt_defs split: option.splits sum.splits if_splits dest: find_Some_member)
  show "fst (findSlackUser env p) = Return None"
  proof (cases "getByUsername env (githubUsername p)")
    case (Inl e)
    then show ?thesis
      by (simp add: findSlackUser_def fst_then_do fst_try_catch fst_await t1)
  next
    case (Inr gu)
    then show ?thesis
      using t3 [OF Inr]
      by (cases "fst (name_search env p gu)")
         (auto simp: findSlackUser_def fst_then_do fst_try_catch fst_await t1 t2)
  qed
qed

text \<open>The theorem where every call fails.\<close>

theorem findSlackUser_never_raises_witness:
  "fst (findSlackUser env_offline octocat_params) = Return None"
  using findSlackUser_never_raises [of env_offline octocat_params]
  by (simp add: env_offline_def)

section \<open>The profile of a Slack user\<close>

text \<open>
  Claim C7. For \<^verbatim>\<open>null\<close> the profile is \<^verbatim>\<open>{username: '', icon_url: '', matched: false}\<close>. For a
  user it has \<^verbatim>\<open>matched: true\<close>; its user name is the profile display name when that is
  truthy, else the real name when that is truthy, else the handle; its icon is the first
  truthy one of the original, 512px and 192px images, else the 72px image.
\<close>

theorem getSlackUserProfile_priority:
  "getSlackUserProfile None = \<lparr>username = Some [], icon_url = Some [], matched = False\<rparr> \<and>
   matched (getSlackUserProfile (Some u)) \<and>
   (truthy (profile_field display_name u) \<longrightarrow>
      username (getSlackUserProfile (Some u)) = profile_field display_name u) \<and>
   (\<not> truthy (profile_field display_name u) \<and> truthy (real_name u) \<longrightarrow>
      username (getSlackUserProfile (Some u)) = real_name u) \<and>
   (\<not> truthy (profile_field display_name u) \<and> \<not> truthy (real_name u) \<longrightarrow>
      username (getSlackUserProfile (Some u)) = name u) \<and>
   (truthy (profile_field image_original u) \<longrightarrow>
      icon_url (getSlackUserProfile (Some u)) = profile_field image_original u) \<and>
   (\<not> truthy (profile_field image_original u) \<and> truthy (profile_field image_512 u) \<longrightarrow>
      icon_url (getSlackUserProfile (Some u)) = profile_field image_512 u) \<and>
   (\<not> truthy (profile_field image_original u) \<and> \<not> truthy (profile_field image_512 u) \<and>
    truthy (profile_field image_192 u) \<longrightarrow>
      icon_url (getSlackUserProfile (Some u)) = profile_field image_192 u) \<and>
   (\<not> truthy (profile_field image_original u) \<and> \<not> truthy (profile_field image_512 u) \<and>
    \<not> truthy (profile_field image_192 u) \<longrightarrow>
      icon_url (getSlackUserProfile (Some u)) = profile_field image_72 u)"
  by (simp add: getSlackUserProfile_def js_or_def Let_def)

text \<open>The theorem at a member with an empty display name and no original image.\<close>

theorem getSlackUserProfile_priority_witness:
  "getSlackUserProfile (Some octocat_slack) =
     \<lparr>username = Some ''Octo Cat'', icon_url = Some ''https://avatars.example/512.png'', matched = True\<rparr>"
  using getSlackUserProfile_priority [of octocat_slack]
  by (simp add: octocat_slack_def profile_field_def slack_user_profile.equality)

section \<open>The name search\<close>

lemma str_includes_sublist: "str_includes s sub \<longleftrightarrow> sublist sub s"
  by (induction s) (auto simp: sublist_Cons_right)

lemma name_matches_iff:
  "name_matches g h m \<longleftrightarrow>
     \<not> deleted m \<and> \<not> is_bot m \<and>
     ((\<exists>rn. real_name m = Some rn \<and> sublist (toLowerCase g) (toLowerCase rn)) \<or>
      (\<exists>pr dn. profile m = Some pr \<and> display_name pr = Some dn \<and>
          sublist (toLowerCase g) (toLowerCase dn)) \<or>
      (\<exists>n. name m = Some n \<and> toLowerCase n = toLowerCase h))"
  by (auto simp: name_matches_def str_includes_sublist split: option.splits)

lemma name_search_Return:
  assumes "name_search env p gu = (Return r, tr)"
  shows "\<exists>d ms u. users_list env (slackToken p) = Inr d \<and> list_ok d \<and> members d = Some ms \<and>
           r = Some u \<and> find (name_matches (github_display_name gu) (githubUsername p)) ms = Some u"
proof (cases "users_list env (slackToken p)")
  case (Inl e)
  with assms show ?thesis by (simp add: name_search_def await_def)
next
  case (Inr d)
  show ?thesis
  proof (cases "if list_ok d then members d else None")
    case None
    with assms Inr show ?thesis by (simp add: name_search_def stmt_defs)
  next
    case (Some ms)
    then have ms: "list_ok d" "members d = Some ms" by (simp_all split: if_splits)
    show ?thesis
    proof (cases "find (name_matches (github_display_name gu) (githubUsername p)) ms")
      case None
      with assms Inr ms show ?thesis by (simp add: name_search_def stmt_defs)
    next
      case (Some u)
      with Inr ms have "fst (name_search env p gu) = Return (Some u)"
        by (simp add: name_search_def run_simps)
      with assms have "r = Some u" by simp
      with Inr ms Some show ?thesis by blast
    qed
  qed
qed

lemma manual_mapping_no_list: "\<not> list_ex is_list_request (snd (manual_mapping env p))"
  by (auto simp: manual_mapping_def manual_mapping_try_def stmt_defs split: sum.splits option.splits)

lemma email_lookup_no_list: "\<not> list_ex is_list_request (snd (email_lookup env p gu))"
  by (auto simp: email_lookup_def stmt_defs split: sum.splits option.splits)

lemma manual_mapping_not_Throw: "fst (manual_mapping env p) \<noteq> Throw e"
  by (auto simp: manual_mapping_def run_simps split: option.splits completion.splits)

lemma email_lookup_not_Throw: "fst (email_lookup env p gu) \<noteq> Throw e"
  by (auto simp: email_lookup_def run_simps split: option.splits completion.splits)

lemma found_by_name_search:
  assumes "fst (findSlackUser env p) = Return (Some u)"
    and "FetchUsersList (slackToken p) \<in> set (snd (findSlackUser env p))"
  shows "\<exists>gu tr. getByUsername env (githubUsername p) = Inr gu \<and>
           name_search env p gu = (Return (Some u), tr)"
proof (cases "getByUsername env (githubUsername p)")
  case (Inl e)
  have nl1: "FetchUsersList (slackToken p) \<notin> set (snd (manual_mapping env p))"
    using manual_mapping_no_list [of env p] by (auto simp: list_ex_iff)
  with assms Inl show ?thesis
    by (cases "fst (manual_mapping env p)") (auto simp: findSlackUser_def run_simps)
next
  case (Inr gu)
  have nl1: "FetchUsersList (slackToken p) \<notin> set (snd (manual_mapping env p))"
    using manual_mapping_no_list [of env p] by (auto simp: list_ex_iff)
  have nl2: "FetchUsersList (slackToken p) \<notin> set (snd (email_lookup env p gu))"
    using email_lookup_no_list [of env p gu] by (auto simp: list_ex_iff)
  show ?thesis
  proof (cases "fst (manual_mapping env p)")
    case (Return v)
    with assms nl1 show ?thesis by (simp add: findSlackUser_def run_simps)
  next
    case (Throw e)
    then show ?thesis using manual_mapping_not_Throw by blast
  next
    case Normal
    note mm = this
    show ?thesis
    proof (cases "fst (email_lookup env p gu)")
      case (Return v)
      with assms nl1 nl2 mm Inr show ?thesis by (simp add: findSlackUser_def run_simps)
    next
      case (Throw e)
      then show ?thesis using email_lookup_not_Throw by blast
    next
      case Normal
      with assms mm Inr show ?thesis
        by (cases "name_search env p gu"; cases "fst (name_search env p gu)")
           (auto simp: findSlackUser_def run_simps)
    qed
  qed
qed

lemma directory_run:
  "findSlackUser env_directory octocat_params =
     (Return (Some octocat_slack),
      [FetchUsersInfo ''xoxb-token'' ''U12345678'',
       CoreWarning ''Failed to parse user mapping: fetch failed'',
       GetByUsername ''octocat'',
       FetchLookupByEmail ''xoxb-token'' ''octo@example.com'',
       CoreWarning ''Email lookup failed: fetch failed'',
       FetchUsersList ''xoxb-token'',
       CoreInfo (check_mark @ '' Matched octocat by name'')])"
  by code_simp




section \<open>Falling through the tiers\<close>

text \<open>The mapping step: when it yields no user, and what it leaves in the run.\<close>

lemma manual_mapping_Normal_iff:
  "fst (manual_mapping env p) = Normal \<longleftrightarrow>
     \<not> (\<exists>m mp sid d. userMapping p = Some m \<and> m \<noteq> [] \<and> JSON_parse env m = Inr mp \<and>
          mp (githubUsername p) = Some sid \<and> sid \<noteq> [] \<and>
          users_info env (slackToken p) sid = Inr d \<and> ok d \<and> user d \<noteq> None)"
  by (auto simp: manual_mapping_def manual_mapping_try_def run_simps
           split: option.splits sum.splits)

lemma manual_mapping_malformed:
  assumes "userMapping p = Some m" and "m \<noteq> []" and "JSON_parse env m = Inl e"
  shows "manual_mapping env p =
           (Normal, [CoreWarning (''Failed to parse user mapping: '' @ message e)])"
  using assms by (simp add: manual_mapping_def manual_mapping_try_def stmt_defs)

lemma manual_mapping_request_failed:
  assumes "userMapping p = Some m" and "m \<noteq> []" and "JSON_parse env m = Inr mp"
    and "mp (githubUsername p) = Some sid" and "sid \<noteq> []"
    and "users_info env (slackToken p) sid = Inl e"
  shows "manual_mapping env p =
           (Normal, [FetchUsersInfo (slackToken p) sid,
                     CoreWarning (''Failed to parse user mapping: '' @ message e)])"
  using assms by (simp add: manual_mapping_def manual_mapping_try_def stmt_defs)

lemma manual_mapping_no_key:
  assumes "userMapping p = Some m" and "m \<noteq> []" and "JSON_parse env m = Inr mp"
    and "mp (githubUsername p) = None \<or> mp (githubUsername p) = Some []"
  shows "manual_mapping env p = (Normal, [])"
  using assms by (auto simp: manual_mapping_def manual_mapping_try_def stmt_defs)

lemma manual_mapping_no_user:
  assumes "userMapping p = Some m" and "m \<noteq> []" and "JSON_parse env m = Inr mp"
    and "mp (githubUsername p) = Some sid" and "sid \<noteq> []"
    and "users_info env (slackToken p) sid = Inr d" and "\<not> (ok d \<and> user d \<noteq> None)"
  shows "manual_mapping env p = (Normal, [FetchUsersInfo (slackToken p) sid])"
  using assms by (auto simp: manual_mapping_def manual_mapping_try_def stmt_defs)

lemma manual_mapping_absent:
  assumes "userMapping p = None \<or> userMapping p = Some []"
  shows "manual_mapping env p = (Normal, [])"
  using assms by (auto simp: manual_mapping_def stmt_defs)

lemma manual_mapping_no_email: "\<not> list_ex is_email_request (snd (manual_mapping env p))"
  by (auto simp: manual_mapping_def manual_mapping_try_def stmt_defs split: sum.splits option.splits)

text \<open>The email lookup: when it yields no user, and what it leaves in the run.\<close>

lemma email_lookup_request_failed:
  assumes "email gu = Some addr" and "addr \<noteq> []"
    and "users_lookupByEmail env (slackToken p) addr = Inl e"
  shows "email_lookup env p gu =
           (Normal, [FetchLookupByEmail (slackToken p) addr,
                     CoreWarning (''Email lookup failed: '' @ message e)])"
  using assms by (simp add: email_lookup_def stmt_defs)

lemma email_lookup_no_user:
  assumes "email gu = Some addr" and "addr \<noteq> []"
    and "users_lookupByEmail env (slackToken p) addr = Inr d" and "\<not> (ok d \<and> user d \<noteq> None)"
  shows "email_lookup env p gu = (Normal, [FetchLookupByEmail (slackToken p) addr])"
  using assms by (auto simp: email_lookup_def stmt_defs)

lemma email_lookup_absent:
  assumes "email gu = None \<or> email gu = Some []"
  shows "email_lookup env p gu = (Normal, [])"
  using assms by (auto simp: email_lookup_def stmt_defs)

text \<open>The run behind a mapping step and an email lookup that yield no user.\<close>

lemma run_after_mapping:
  assumes "fst (manual_mapping env p) = Normal"
  shows "\<exists>post. snd (findSlackUser env p) =
           snd (manual_mapping env p) @ GetByUsername (githubUsername p) # post"
  using assms
  by (cases "getByUsername env (githubUsername p)")
     (auto simp: findSlackUser_def run_simps split: completion.splits)

lemma run_after_email:
  assumes "fst (manual_mapping env p) = Normal"
    and "getByUsername env (githubUsername p) = Inr gu"
    and "fst (email_lookup env p gu) = Normal"
  shows "\<exists>post. snd (findSlackUser env p) =
           snd (manual_mapping env p) @ GetByUsername (githubUsername p) #
           snd (email_lookup env p gu) @ FetchUsersList (slackToken p) # post"
  using assms
  by (cases "users_list env (slackToken p)")
     (auto simp: findSlackUser_def name_search_def run_simps split: completion.splits)

lemma run_github_failed:
  assumes "fst (manual_mapping env p) = Normal"
    and "getByUsername env (githubUsername p) = Inl e"
  shows "findSlackUser env p =
           (Return None,
            snd (manual_mapping env p) @
            [GetByUsername (githubUsername p),
             CoreWarning (''Failed to lookup '' @ githubUsername p @ '': '' @ message e)])"
  using assms by (simp add: findSlackUser_def run_simps prod_eq_iff)

text \<open>
  Claim C2 as stated fails, in two ways. When the request to GitHub fails, the run ends
  with \<^verbatim>\<open>null\<close> and a warning, and the member list is never requested, although the name
  search would have found the member. And when the mapping step and the email lookup
  find no user, the run goes on to the next request without logging anything: its only
  log line is that of the match by name.
\<close>

theorem findSlackUser_github_failure_ends_lookup:
  "findSlackUser env_github_down unmapped_params =
     (Return None, [GetByUsername ''octocat'', CoreWarning ''Failed to lookup octocat: Not Found'']) \<and>
   fst (name_search env_github_down unmapped_params \<lparr>login = ''octocat'', gh_name = None, email = None\<rparr>)
     = Return (Some octocat_slack) \<and>
   findSlackUser env_no_match octocat_params =
     (Return (Some octocat_slack),
      [FetchUsersInfo ''xoxb-token'' ''U12345678'',
       GetByUsername ''octocat'',
       FetchLookupByEmail ''xoxb-token'' ''octo@example.com'',
       FetchUsersList ''xoxb-token'',
       CoreInfo (check_mark @ '' Matched octocat by name'')])"
  by code_simp

text \<open>
  Claim C2, amended. When the mapping is malformed JSON, or the \<^verbatim>\<open>users.info\<close> request for
  the mapped id fails, the failure is logged as a warning and GitHub is asked for the
  user. When the mapping has no id for the user name, or \<^verbatim>\<open>users.info\<close> answers without a
  user, or no mapping is supplied, GitHub is asked next and nothing is logged before.
  In short, whenever the mapping does not resolve to a user, GitHub is asked. From there,
  when GitHub has answered: a failed email request is logged as a warning and the member
  list is requested; an email lookup that answers without a user, or a GitHub user
  without email, is followed directly by the member list request, with nothing logged
  between; when the request to GitHub itself fails, the run returns \<^verbatim>\<open>null\<close> with a
  warning and makes neither the email lookup nor the member list request.
\<close>

theorem findSlackUser_falls_through:
  "(userMapping p = Some m \<and> m \<noteq> [] \<and> JSON_parse env m = Inl e \<longrightarrow>
      CoreWarning (''Failed to parse user mapping: '' @ message e) \<in> set (snd (findSlackUser env p)) \<and>
      GetByUsername (githubUsername p) \<in> set (snd (findSlackUser env p))) \<and>
   (userMapping p = Some m \<and> m \<noteq> [] \<and> JSON_parse env m = Inr mp \<and>
    mp (githubUsername p) = Some sid \<and> sid \<noteq> [] \<and>
    users_info env (slackToken p) sid = Inl e \<longrightarrow>
      CoreWarning (''Failed to parse user mapping: '' @ message e) \<in> set (snd (findSlackUser env p)) \<and>
      GetByUsername (githubUsername p) \<in> set (snd (findSlackUser env p))) \<and>
   (userMapping p = Some m \<and> m \<noteq> [] \<and> JSON_parse env m = Inr mp \<and>
    (mp (githubUsername p) = None \<or> mp (githubUsername p) = Some []) \<longrightarrow>
      (\<exists>post. snd (findSlackUser env p) = GetByUsername (githubUsername p) # post)) \<and>
   (userMapping p = Some m \<and> m \<noteq> [] \<and> JSON_parse env m = Inr mp \<and>
    mp (githubUsername p) = Some sid \<and> sid \<noteq> [] \<and>
    users_info env (slackToken p) sid = Inr d \<and> \<not> (ok d \<and> user d \<noteq> None) \<longrightarrow>
      (\<exists>post. snd (findSlackUser env p) =
         FetchUsersInfo (slackToken p) sid # GetByUsername (githubUsername p) # post)) \<and>
   (userMapping p = None \<or> userMapping p = Some [] \<longrightarrow>
      (\<exists>post. snd (findSlackUser env p) = GetByUsername (githubUsername p) # post)) \<and>
   (\<not> (\<exists>m mp sid d. userMapping p = Some m \<and> m \<noteq> [] \<and> JSON_parse env m = Inr mp \<and>
          mp (githubUsername p) = Some sid \<and> sid \<noteq> [] \<and>
          users_info env (slackToken p) sid = Inr d \<and> ok d \<and> user d \<noteq> None) \<longrightarrow>
      GetByUsername (githubUsername p) \<in> set (snd (findSlackUser env p)) \<and>
      (\<forall>gu. getByUsername env (githubUsername p) = Inr gu \<longrightarrow>
         (\<forall>addr err. email gu = Some addr \<and> addr \<noteq> [] \<and>
              users_lookupByEmail env (slackToken p) addr = Inl err \<longrightarrow>
            CoreWarning (''Email lookup failed: '' @ message err) \<in> set (snd (findSlackUser env p)) \<and>
            FetchUsersList (slackToken p) \<in> set (snd (findSlackUser env p))) \<and>
         (\<forall>addr ans. email gu = Some addr \<and> addr \<noteq> [] \<and>
              users_lookupByEmail env (slackToken p) addr = Inr ans \<and>
              \<not> (ok ans \<and> user ans \<noteq> None) \<longrightarrow>
            (\<exists>pre post. snd (findSlackUser env p) =
               pre @ GetByUsername (githubUsername p) # FetchLookupByEmail (slackToken p) addr #
               FetchUsersList (slackToken p) # post)) \<and>
         (email gu = None \<or> email gu = Some [] \<longrightarrow>
            (\<exists>pre post. snd (findSlackUser env p) =
               pre @ GetByUsername (githubUsername p) # FetchUsersList (slackToken p) # post))) \<and>
      (\<forall>err. getByUsername env (githubUsername p) = Inl err \<longrightarrow>
         fst (findSlackUser env p) = Return None \<and>
         CoreWarning (''Failed to lookup '' @ githubUsername p @ '': '' @ message err)
           \<in> set (snd (findSlackUser env p)) \<and>
         \<not> list_ex is_email_request (snd (findSlackUser env p)) \<and>
         \<not> list_ex is_list_request (snd (findSlackUser env p))))"
proof (intro conjI impI allI)
  assume h: "userMapping p = Some m \<and> m \<noteq> [] \<and> JSON_parse env m = Inl e"
  then have mm: "manual_mapping env p =
      (Normal, [CoreWarning (''Failed to parse user mapping: '' @ message e)])"
    by (simp add: manual_mapping_malformed)
  with run_after_mapping [of env p]
  show "CoreWarning (''Failed to parse user mapping: '' @ message e) \<in> set (snd (findSlackUser env p))"
    and "GetByUsername (githubUsername p) \<in> set (snd (findSlackUser env p))"
    by auto
next
  assume h: "userMapping p = Some m \<and> m \<noteq> [] \<and> JSON_parse env m = Inr mp \<and>
    mp (githubUsername p) = Some sid \<and> sid \<noteq> [] \<and>
    users_info env (slackToken p) sid = Inl e"
  then have mm: "manual_mapping env p =
      (Normal, [FetchUsersInfo (slackToken p) sid,
                CoreWarning (''Failed to parse user mapping: '' @ message e)])"
    by (simp add: manual_mapping_request_failed)
  with run_after_mapping [of env p]
  show "CoreWarning (''Failed to parse user mapping: '' @ message e) \<in> set (snd (findSlackUser env p))"
    and "GetByUsername (githubUsername p) \<in> set (snd (findSlackUser env p))"
    by auto
next
  assume h: "userMapping p = Some m \<and> m \<noteq> [] \<and> JSON_parse env m = Inr mp \<and>
    (mp (githubUsername p) = None \<or> mp (githubUsername p) = Some [])"
  then have "manual_mapping env p = (Normal, [])"
    using manual_mapping_no_key [of p m env mp] by blast
  with run_after_mapping [of env p]
  show "\<exists>post. snd (findSlackUser env p) = GetByUsername (githubUsername p) # post"
    by auto
next
  assume h: "userMapping p = Some m \<and> m \<noteq> [] \<and> JSON_parse env m = Inr mp \<and>
    mp (githubUsername p) = Some sid \<and> sid \<noteq> [] \<and>
    users_info env (slackToken p) sid = Inr d \<and> \<not> (ok d \<and> user d \<noteq> None)"
  then have "manual_mapping env p = (Normal, [FetchUsersInfo (slackToken p) sid])"
    using manual_mapping_no_user [of p m env mp sid d] by blast
  with run_after_mapping [of env p]
  show "\<exists>post. snd (findSlackUser env p) =
         FetchUsersInfo (slackToken p) sid # GetByUsername (githubUsername p) # post"
    by auto
next
  assume "userMapping p = None \<or> userMapping p = Some []"
  then have "manual_mapping env p = (Normal, [])" by (rule manual_mapping_absent)
  with run_after_mapping [of env p]
  show "\<exists>post. snd (findSlackUser env p) = GetByUsername (githubUsername p) # post"
    by auto
next
  assume "\<not> (\<exists>m mp sid d. userMapping p = Some m \<and> m \<noteq> [] \<and> JSON_parse env m = Inr mp \<and>
          mp (githubUsername p) = Some sid \<and> sid \<noteq> [] \<and>
          users_info env (slackToken p) sid = Inr d \<and> ok d \<and> user d \<noteq> None)"
  then have mm: "fst (manual_mapping env p) = Normal"
    using manual_mapping_Normal_iff [of env p] by blast
  from run_after_mapping [OF mm]
  show "GetByUsername (githubUsername p) \<in> set (snd (findSlackUser env p))" by auto
  {
    fix gu addr err
    assume gu: "getByUsername env (githubUsername p) = Inr gu"
      and a: "email gu = Some addr \<and> addr \<noteq> [] \<and>
              users_lookupByEmail env (slackToken p) addr = Inl err"
    then have el: "email_lookup env p gu =
        (Normal, [FetchLookupByEmail (slackToken p) addr,
                  CoreWarning (''Email lookup failed: '' @ message err)])"
      by (simp add: email_lookup_request_failed)
    with run_after_email [OF mm gu]
    show "CoreWarning (''Email lookup failed: '' @ message err) \<in> set (snd (findSlackUser env p))"
      and "FetchUsersList (slackToken p) \<in> set (snd (findSlackUser env p))"
      by auto
  }
  {
    fix gu addr ans
    assume gu: "getByUsername env (githubUsername p) = Inr gu"
      and a: "email gu = Some addr \<and> addr \<noteq> [] \<and>
              users_lookupByEmail env (slackToken p) addr = Inr ans \<and>
              \<not> (ok ans \<and> user ans \<noteq> None)"
    then have el: "email_lookup env p gu = (Normal, [FetchLookupByEmail (slackToken p) addr])"
      using email_lookup_no_user [of gu addr env p ans] by blast
    with run_after_email [OF mm gu]
    show "\<exists>pre post. snd (findSlackUser env p) =
               pre @ GetByUsername (githubUsername p) # FetchLookupByEmail (slackToken p) addr #
               FetchUsersList (slackToken p) # post"
      by auto
  }
  {
    fix gu
    assume gu: "getByUsername env (githubUsername p) = Inr gu"
      and a: "email gu = None \<or> email gu = Some []"
    then have el: "email_lookup env p gu = (Normal, [])"
      by (simp add: email_lookup_absent)
    with run_after_email [OF mm gu]
    show "\<exists>pre post. snd (findSlackUser env p) =
               pre @ GetByUsername (githubUsername p) # FetchUsersList (slackToken p) # post"
      by auto
  }
  {
    fix err
    assume "getByUsername env (githubUsername p) = Inl err"
    from run_github_failed [OF mm this] manual_mapping_no_email [of env p]
      manual_mapping_no_list [of env p]
    show "fst (findSlackUser env p) = Return None"
      and "CoreWarning (''Failed to lookup '' @ githubUsername p @ '': '' @ message err)
           \<in> set (snd (findSlackUser env p))"
      and "\<not> list_ex is_email_request (snd (findSlackUser env p))"
      and "\<not> list_ex is_list_request (snd (findSlackUser env p))"
      by simp_all
  }
qed

text \<open>
  The theorem where the mapping is malformed and the email request fails, and where
  GitHub fails.
\<close>

theorem findSlackUser_falls_through_witness:
  "CoreWarning ''Failed to parse user mapping: Unexpected token''
     \<in> set (snd (findSlackUser env_directory malformed_params)) \<and>
   GetByUsername ''octocat'' \<in> set (snd (findSlackUser env_directory malformed_params)) \<and>
   CoreWarning ''Email lookup failed: fetch failed''
     \<in> set (snd (findSlackUser env_directory malformed_params)) \<and>
   FetchUsersList ''xoxb-token'' \<in> set (snd (findSlackUser env_directory malformed_params)) \<and>
   fst (findSlackUser env_github_down unmapped_params) = Return None \<and>
   \<not> list_ex is_list_request (snd (findSlackUser env_github_down unmapped_params))"
proof -
  let ?gu = "\<lparr>login = ''octocat'', gh_name = Some ''octo cat'', email = Some ''octo@example.com''\<rparr>"
  have p: "githubUsername malformed_params = ''octocat''" "slackToken malformed_params = ''xoxb-token''"
    by (simp_all add: malformed_params_def)
  have a1: "malformed_mapping \<noteq> []"
    by (simp add: malformed_mapping_def)
  have a: "userMapping malformed_params = Some malformed_mapping \<and> malformed_mapping \<noteq> [] \<and>
           JSON_parse env_directory malformed_mapping = Inl (Error ''Unexpected token'')"
    by (simp add: malformed_params_def env_directory_def parse_example_malformed a1)
  have n: "\<not> (\<exists>m mp sid d. userMapping malformed_params = Some m \<and> m \<noteq> [] \<and>
          JSON_parse env_directory m = Inr mp \<and>
          mp (githubUsername malformed_params) = Some sid \<and> sid \<noteq> [] \<and>
          users_info env_directory (slackToken malformed_params) sid = Inr d \<and> ok d \<and> user d \<noteq> None)"
    using a by auto
  have b: "getByUsername env_directory (githubUsername malformed_params) = Inr ?gu"
    by (simp add: env_directory_def malformed_params_def)
  have c: "email ?gu = Some ''octo@example.com'' \<and> ''octo@example.com'' \<noteq> [] \<and>
    users_lookupByEmail env_directory (slackToken malformed_params) ''octo@example.com''
      = Inl (Error ''fetch failed'')"
    by (simp add: env_directory_def)
  have g: "\<not> (\<exists>m mp sid d. userMapping unmapped_params = Some m \<and> m \<noteq> [] \<and>
          JSON_parse env_github_down m = Inr mp \<and>
          mp (githubUsername unmapped_params) = Some sid \<and> sid \<noteq> [] \<and>
          users_info env_github_down (slackToken unmapped_params) sid = Inr d \<and> ok d \<and> user d \<noteq> None)"
    by (simp add: unmapped_params_def)
  have h: "getByUsername env_github_down (githubUsername unmapped_params) = Inl (Error ''Not Found'')"
    by (simp add: env_github_down_def)
  note T = findSlackUser_falls_through
    [of malformed_params malformed_mapping env_directory "Error ''Unexpected token''"]
  note first = T [THEN conjunct1, THEN mp, OF a]
  note rest = T [THEN conjunct2, THEN conjunct2, THEN conjunct2, THEN conjunct2, THEN conjunct2,
    THEN mp, OF n]
  note mail = rest [THEN conjunct2, THEN conjunct1, THEN spec, THEN mp, OF b,
    THEN conjunct1, THEN spec, THEN spec, THEN mp, OF c]
  note U = findSlackUser_falls_through [of unmapped_params malformed_mapping env_github_down]
  note down = U [THEN conjunct2, THEN conjunct2, THEN conjunct2, THEN conjunct2, THEN conjunct2,
    THEN mp, OF g, THEN conjunct2, THEN conjunct2, THEN spec, THEN mp, OF h]
  from first mail down show ?thesis
    by (simp add: p)
qed

section \<open>The display name of a resolved user\<close>

text \<open>
  Claim C9 as stated fails: a user resolved through the mapping whose display name, real
  name and handle are all empty gets an empty user name.
\<close>

theorem resolved_profile_empty_display_name:
  "fst (findSlackUser env_nameless octocat_params) = Return (Some nameless_slack) \<and>
   getSlackUserProfile (Some nameless_slack) = \<lparr>username = Some [], icon_url = None, matched = True\<rparr>"
  by code_simp

lemma toLowerCase_Nil_iff [simp]: "toLowerCase s = [] \<longleftrightarrow> s = []"
  by (simp add: toLowerCase_def)

lemma sublist_nonempty: "sublist xs ys \<Longrightarrow> xs \<noteq> [] \<Longrightarrow> ys \<noteq> []"
  by (auto simp: sublist_def)

lemma github_display_name_nonempty: "login gu \<noteq> [] \<Longrightarrow> github_display_name gu \<noteq> []"
  by (simp add: github_display_name_def split: option.splits)

lemma username_truthy_iff:
  "truthy (username (getSlackUserProfile (Some u))) \<longleftrightarrow>
     truthy (profile_field display_name u) \<or> truthy (real_name u) \<or> truthy (name u)"
  by (simp add: getSlackUserProfile_def js_or_def Let_def)

text \<open>
  Claim C9, amended. The profile of a resolved user has \<^verbatim>\<open>matched: true\<close>, and its user
  name is a non-empty string exactly when the user's profile display name, real name or
  handle is one. This is always so for a user found by the name search when the GitHub
  user name and login are not empty. The icon may be absent.
\<close>

theorem resolved_profile_display_name:
  assumes "fst (findSlackUser env p) = Return (Some u)"
  shows "matched (getSlackUserProfile (Some u)) \<and>
         (truthy (username (getSlackUserProfile (Some u))) \<longleftrightarrow>
            truthy (profile_field display_name u) \<or> truthy (real_name u) \<or> truthy (name u)) \<and>
         (FetchUsersList (slackToken p) \<in> set (snd (findSlackUser env p)) \<and>
          githubUsername p \<noteq> [] \<and>
          (\<forall>gu. getByUsername env (githubUsername p) = Inr gu \<longrightarrow> login gu \<noteq> []) \<longrightarrow>
            truthy (username (getSlackUserProfile (Some u))))"
proof (intro conjI impI)
  show "matched (getSlackUserProfile (Some u))"
    by (simp add: getSlackUserProfile_def Let_def)
  show "truthy (username (getSlackUserProfile (Some u))) \<longleftrightarrow>
            truthy (profile_field display_name u) \<or> truthy (real_name u) \<or> truthy (name u)"
    by (rule username_truthy_iff)
next
  assume h: "FetchUsersList (slackToken p) \<in> set (snd (findSlackUser env p)) \<and>
          githubUsername p \<noteq> [] \<and>
          (\<forall>gu. getByUsername env (githubUsername p) = Inr gu \<longrightarrow> login gu \<noteq> [])"
  with found_by_name_search [OF assms] obtain gu tr where
    gu: "getByUsername env (githubUsername p) = Inr gu" and
    ns: "name_search env p gu = (Return (Some u), tr)" by blast
  from name_search_Return [OF ns] obtain ms where
    f: "find (name_matches (github_display_name gu) (githubUsername p)) ms = Some u" by auto
  from find_Some_member [OF f]
  have nm: "name_matches (github_display_name gu) (githubUsername p) u" by simp
  from h gu have g: "toLowerCase (github_display_name gu) \<noteq> []"
    by (simp add: github_display_name_nonempty)
  from h have n: "toLowerCase (githubUsername p) \<noteq> []" by simp
  from nm consider
      (rn) rn where "real_name u = Some rn" "sublist (toLowerCase (github_display_name gu)) (toLowerCase rn)"
    | (dn) pr dn where "profile u = Some pr" "display_name pr = Some dn"
        "sublist (toLowerCase (github_display_name gu)) (toLowerCase dn)"
    | (hn) n where "name u = Some n" "toLowerCase n = toLowerCase (githubUsername p)"
    unfolding name_matches_iff by blast
  then have "truthy (profile_field display_name u) \<or> truthy (real_name u) \<or> truthy (name u)"
  proof cases
    case rn
    with sublist_nonempty [OF rn(2) g] show ?thesis by simp
  next
    case dn
    with sublist_nonempty [OF dn(3) g] show ?thesis by (simp add: profile_field_def)
  next
    case hn
    from hn(2) n have "toLowerCase n \<noteq> []" by simp
    then have "n \<noteq> []" by simp
    with hn(1) show ?thesis by simp
  qed
  then show "truthy (username (getSlackUserProfile (Some u)))"
    by (simp add: username_truthy_iff)
qed

text \<open>The theorem at the member found by name; the bot has no icon.\<close>

theorem resolved_profile_display_name_witness:
  "matched (getSlackUserProfile (Some octocat_slack)) \<and>
   truthy (username (getSlackUserProfile (Some octocat_slack))) \<and>
   icon_url (getSlackUserProfile (Some deploy_bot)) = None"
proof -
  have a: "fst (findSlackUser env_directory octocat_params) = Return (Some octocat_slack)"
    by (simp add: directory_run)
  have b: "FetchUsersList (slackToken octocat_params) \<in> set (snd (findSlackUser env_directory octocat_params))"
    "githubUsername octocat_params \<noteq> []"
    "\<forall>gu. getByUsername env_directory (githubUsername octocat_params) = Inr gu \<longrightarrow> login gu \<noteq> []"
    by (auto simp: directory_run) (auto simp: octocat_params_def env_directory_def)
  have c: "icon_url (getSlackUserProfile (Some deploy_bot)) = None"
    by code_simp
  from resolved_profile_display_name [OF a] b c show ?thesis by blast
qed

section \<open>The block builders\<close>

lemma image_loop_images:
  "list_all is_image blocks \<Longrightarrow> list_all is_image (image_loop tags blocks)"
  by (induction tags arbitrary: blocks) (auto simp: Let_def split: option.splits)

lemma imageBlocks_images: "list_all is_image (imageBlocks (extractAndConvertImages text))"
  by (simp add: extractAndConvertImages_def image_loop_images)

text \<open>
  Claim C6 as stated fails: for an empty review body \<^verbatim>\<open>buildReviewBlocks\<close> still emits a
  section, holding the emoji and the action.
\<close>

theorem buildReviewBlocks_empty_body_section:
  "buildReviewBlocks ''ok'' ''Approved'' [] ''u'' ''t'' ''r'' ''ann'' =
     [Section ''ok *Approved*'', Context (''<u|t> '' @ bullet @ '' <r|View review> '' @ bullet @ '' ann'')] \<and>
   textWithoutImages (extractAndConvertImages []) = []"
  by code_simp

text \<open>
  Claim C6, amended. Each builder returns an optional section, then the extracted image
  blocks in their order, then one context block, which is the only context block; there
  is at most one section and every other block is an image. \<^verbatim>\<open>buildReviewRequestBlocks\<close> and
  \<^verbatim>\<open>buildReviewBlocks\<close> always emit the section; \<^verbatim>\<open>buildCommentBlocks\<close> emits it exactly when
  the text left after the extraction is not empty.
\<close>

theorem builders_block_shape:
  "(\<exists>sec ctx.
      buildCommentBlocks commentBody issueUrl issueTitle commentUrl commentAuthor =
        sec @ imageBlocks (extractAndConvertImages commentBody) @ [Context ctx] \<and>
      sec = (if textWithoutImages (extractAndConvertImages commentBody) \<noteq> []
             then [Section (textWithoutImages (extractAndConvertImages commentBody))] else [])) \<and>
   (\<exists>t ctx.
      buildReviewRequestBlocks reviewerTag prUrl prTitle prBody prNumber requestSender requestedReviewer =
        [Section t] @ imageBlocks (extractAndConvertImages (trim prBody)) @ [Context ctx]) \<and>
   (\<exists>t ctx.
      buildReviewBlocks reviewEmoji reviewAction reviewBody prUrl prTitle reviewUrl reviewer =
        [Section t] @ imageBlocks (extractAndConvertImages reviewBody) @ [Context ctx]) \<and>
   (\<forall>blocks \<in> {buildCommentBlocks commentBody issueUrl issueTitle commentUrl commentAuthor,
                 buildReviewRequestBlocks reviewerTag prUrl prTitle prBody prNumber requestSender requestedReviewer,
                 buildReviewBlocks reviewEmoji reviewAction reviewBody prUrl prTitle reviewUrl reviewer}.
      blocks \<noteq> [] \<and> is_context (last blocks) \<and> length (filter is_context blocks) = 1 \<and>
      length (filter is_section blocks) \<le> 1 \<and>
      list_all is_image (filter (\<lambda>b. \<not> is_section b \<and> \<not> is_context b) blocks))"
proof -
  have img: "filter is_context (imageBlocks (extractAndConvertImages body)) = [] \<and>
             filter is_section (imageBlocks (extractAndConvertImages body)) = [] \<and>
             filter (\<lambda>b. \<not> is_section b \<and> \<not> is_context b) (imageBlocks (extractAndConvertImages body))
               = imageBlocks (extractAndConvertImages body)" for body
  proof -
    have "\<forall>b \<in> set (imageBlocks (extractAndConvertImages body)). is_image b"
      using imageBlocks_images [of body] by (simp add: list_all_iff)
    moreover have "is_image b \<Longrightarrow> \<not> is_section b \<and> \<not> is_context b" for b
      by (cases b) simp_all
    ultimately show ?thesis by (auto simp: filter_empty_conv filter_id_conv)
  qed
  show ?thesis
    using imageBlocks_images
    by (simp add: buildCommentBlocks_def buildReviewRequestBlocks_def buildReviewBlocks_def Let_def img)
qed

text \<open>The theorem at a comment and a review request with an image and a review without a body.\<close>

theorem builders_block_shape_witness:
  \<open>is_context (last (buildCommentBlocks ''see <img src="a.png">'' ''u'' ''t'' ''c'' ''ann'')) \<and>
   length (filter is_context (buildCommentBlocks ''see <img src="a.png">'' ''u'' ''t'' ''c'' ''ann'')) = 1 \<and>
   length (filter is_section (buildCommentBlocks ''see <img src="a.png">'' ''u'' ''t'' ''c'' ''ann'')) \<le> 1 \<and>
   is_context (last (buildReviewRequestBlocks ''<@U1>'' ''u'' ''t'' ''<img src="a.png">'' ''7'' ''bob'' ''ann'')) \<and>
   length (filter is_section
     (buildReviewRequestBlocks ''<@U1>'' ''u'' ''t'' ''<img src="a.png">'' ''7'' ''bob'' ''ann'')) \<le> 1 \<and>
   is_context (last (buildReviewBlocks ''ok'' ''Approved'' [] ''u'' ''t'' ''r'' ''ann'')) \<and>
   length (filter is_context (buildReviewBlocks ''ok'' ''Approved'' [] ''u'' ''t'' ''r'' ''ann'')) = 1\<close>
  using builders_block_shape [of \<open>''see <img src="a.png">''\<close> "''u''" "''t''" "''c''" "''ann''" "''<@U1>''" "''u''" "''t''"
               \<open>''<img src="a.png">''\<close> "''7''" "''bob''" "''ann''" "''ok''" "''Approved''" "[]" "''r''" "''ann''"]
  by blast

section \<open>Mentions\<close>

text \<open>Both mention patterns consume at least one character.\<close>

lemma mentionPattern_positive: "mentionPattern s = Some n \<Longrightarrow> 0 < n"
  by (auto simp: mentionPattern_def split: list.splits if_splits)

lemma mention_word_pattern_positive: "mention_word_pattern u s = Some n \<Longrightarrow> 0 < n"
  by (auto simp: mention_word_pattern_def Let_def split: if_splits)

lemma get_substitution_plain:
  "CHR ''$'' \<notin> set r \<Longrightarrow> get_substitution r m b a = r"
  by (induction r m b a rule: get_substitution.induct) auto

lemma mentionPattern_other: "c \<noteq> CHR ''@'' \<Longrightarrow> mentionPattern (c # cs) = None"
  by (simp add: mentionPattern_def)

lemma match_all_mention_skip:
  "CHR ''@'' \<notin> set pre \<Longrightarrow> match_all mentionPattern (pre @ s) = match_all mentionPattern s"
  by (induction pre) (auto simp: mentionPattern_other)

lemma takeWhile_all: "\<forall>c \<in> set n. P c \<Longrightarrow> takeWhile P n = n"
  by (induction n) auto

lemma match_all_mention_single:
  assumes "n \<noteq> []" and "\<forall>c \<in> set n. is_mention_char c"
  shows "match_all mentionPattern (CHR ''@'' # n) = [CHR ''@'' # n]"
proof -
  have "mentionPattern (CHR ''@'' # n) = Some (Suc (length n))"
    using assms by (simp add: mentionPattern_def takeWhile_all)
  then show ?thesis by simp
qed

lemma mention_word_pattern_other: "c \<noteq> CHR ''@'' \<Longrightarrow> mention_word_pattern n (c # cs) = None"
  by (simp add: mention_word_pattern_def Let_def)

lemma replace_mention_skip:
  "CHR ''@'' \<notin> set pre \<Longrightarrow>
     replace_from (mention_word_pattern n) r b (pre @ s) =
       pre @ replace_from (mention_word_pattern n) r (b @ pre) s"
  by (induction pre arbitrary: b) (auto simp: mention_word_pattern_other)

lemma mention_word_pattern_end:
  assumes "n \<noteq> []" and "is_word_char (last n)"
  shows "mention_word_pattern n (CHR ''@'' # n) = Some (Suc (length n))"
  using assms by (simp add: mention_word_pattern_def Let_def at_word_boundary_def)

lemma fst_processMentions:
  "fst (processMentions env body tok mapping) =
     (if map tl (match_all mentionPattern body) \<noteq> [] then
        (case fst (mention_loop env tok mapping (map tl (match_all mentionPattern body)) body) of
           Inl e \<Rightarrow> Throw e
         | Inr processedText \<Rightarrow> Return processedText)
      else Return body)"
  by (simp add: processMentions_def Let_def split: prod.splits)

text \<open>
  When none of the mentions resolves the text comes back as it was; and the two examples of
  the specification.
\<close>

lemma mention_loop_unresolved:
  "\<forall>n \<in> set names.
      fst (findSlackUser env \<lparr>githubUsername = n, slackToken = tok, userMapping = mapping\<rparr>) = Return None
   \<Longrightarrow> fst (mention_loop env tok mapping names t) = Inr t"
proof (induction names)
  case Nil
  then show ?case by simp
next
  case (Cons n ns)
  then have "fst (findSlackUser env \<lparr>githubUsername = n, slackToken = tok, userMapping = mapping\<rparr>) = Return None"
    and ih: "fst (mention_loop env tok mapping ns t) = Inr t" by simp_all
  then obtain tr where "findSlackUser env \<lparr>githubUsername = n, slackToken = tok, userMapping = mapping\<rparr>
      = (Return None, tr)"
    by (cases "findSlackUser env \<lparr>githubUsername = n, slackToken = tok, userMapping = mapping\<rparr>") simp
  with ih show ?case by (cases "mention_loop env tok mapping ns t") simp
qed

lemma processMentions_unresolved_unchanged:
  assumes "\<forall>n \<in> set (map tl (match_all mentionPattern body)).
      fst (findSlackUser env \<lparr>githubUsername = n, slackToken = tok, userMapping = mapping\<rparr>) = Return None"
  shows "fst (processMentions env body tok mapping) = Return body"
  using mention_loop_unresolved [OF assms, of body]
  by (simp add: fst_processMentions del: match_all.simps mention_loop.simps)

lemma processMentions_examples:
  "fst (processMentions env_team ''hi @ann'' ''xoxb-token'' None) = Return ''hi <@U1>''"
  "fst (processMentions env_team ''hi @bob'' ''xoxb-token'' None) = Return ''hi @bob''"
  by code_simp+

text \<open>
  Claim C4, at an input where it fails. The text mentions \<^verbatim>\<open>@ann-lee\<close>, who does not resolve,
  and \<^verbatim>\<open>@ann\<close>, who does. The pattern built for \<^verbatim>\<open>ann\<close> ends in \<^verbatim>\<open>\b\<close>, which holds before a
  hyphen, so the replacement also rewrites the head of \<^verbatim>\<open>@ann-lee\<close>: the unresolved mention
  is not left as it was.
\<close>

theorem processMentions_rewrites_unresolved_mention:
  "fst (processMentions env_team ''cc @ann-lee and @ann'' ''xoxb-token'' None) =
     Return ''cc <@U1>-lee and <@U1>'' \<and>
   fst (findSlackUser env_team \<lparr>githubUsername = ''ann-lee'', slackToken = ''xoxb-token'', userMapping = None\<rparr>)
     = Return None \<and>
   fst (findSlackUser env_team \<lparr>githubUsername = ''ann'', slackToken = ''xoxb-token'', userMapping = None\<rparr>)
     = Return (Some ann_slack)"
  by code_simp

text \<open>
  Claim C10. The mention pattern needs nothing before the \<^verbatim>\<open>@\<close>. For every text made of a
  part without \<^verbatim>\<open>@\<close> (it may end in word characters, as in \<^verbatim>\<open>user@domain\<close>), followed by
  \<^verbatim>\<open>@\<close> and a name of letters, digits and hyphens that ends in a letter or digit, the name
  is the one mention found; when it resolves to a user whose id has no dollar sign, the
  result is the first part followed by the Slack tag.
\<close>

theorem processMentions_no_left_boundary:
  assumes "CHR ''@'' \<notin> set pre" and "n \<noteq> []" and "\<forall>c \<in> set n. is_mention_char c"
    and "is_word_char (last n)"
    and "fst (findSlackUser env \<lparr>githubUsername = n, slackToken = tok, userMapping = mapping\<rparr>)
           = Return (Some u)"
    and "CHR ''$'' \<notin> set (slack_id u)"
  shows "map tl (match_all mentionPattern (pre @ CHR ''@'' # n)) = [n] \<and>
         fst (processMentions env (pre @ CHR ''@'' # n) tok mapping)
           = Return (pre @ ''<@'' @ slack_id u @ ''>'')"
proof -
  have ms: "map tl (match_all mentionPattern (pre @ CHR ''@'' # n)) = [n]"
    using assms(1-3) by (simp add: match_all_mention_skip match_all_mention_single del: match_all.simps)
  have tag: "CHR ''$'' \<notin> set (''<@'' @ slack_id u @ ''>'')"
    using assms(6) by simp
  have rep: "js_replace (mention_word_pattern n) (''<@'' @ slack_id u @ ''>'') (pre @ CHR ''@'' # n)
               = pre @ ''<@'' @ slack_id u @ ''>''"
    using assms(1) mention_word_pattern_end [OF assms(2,4)] get_substitution_plain [OF tag]
    by (simp add: js_replace_def replace_mention_skip)
  obtain tr where f: "findSlackUser env \<lparr>githubUsername = n, slackToken = tok, userMapping = mapping\<rparr>
      = (Return (Some u), tr)"
    using assms(5) by (cases "findSlackUser env \<lparr>githubUsername = n, slackToken = tok, userMapping = mapping\<rparr>") simp
  have "fst (mention_loop env tok mapping [n] (pre @ CHR ''@'' # n)) = Inr (pre @ ''<@'' @ slack_id u @ ''>'')"
    using f rep by (simp add: Let_def)
  then have "fst (processMentions env (pre @ CHR ''@'' # n) tok mapping)
           = Return (pre @ ''<@'' @ slack_id u @ ''>'')"
    by (simp add: fst_processMentions ms del: mention_loop.simps match_all.simps)
  with ms show ?thesis by simp
qed

text \<open>The theorem at \<^verbatim>\<open>user@domain\<close>.\<close>

theorem processMentions_no_left_boundary_witness:
  "map tl (match_all mentionPattern ''user@domain'') = [''domain''] \<and>
   fst (processMentions env_team ''user@domain'' ''xoxb-token'' None) = Return ''user<@U2>''"
proof -
  have a: "CHR ''@'' \<notin> set ''user''" "''domain'' \<noteq> []" "\<forall>c \<in> set ''domain''. is_mention_char c"
    "is_word_char (last ''domain'')"
    by (simp_all add: is_mention_char_def is_word_char_def lower_letters_def)
  have b: "fst (findSlackUser env_team \<lparr>githubUsername = ''domain'', slackToken = ''xoxb-token'', userMapping = None\<rparr>)
     = Return (Some domain_slack)"
    by code_simp
  have c: "CHR ''$'' \<notin> set (slack_id domain_slack)" "slack_id domain_slack = ''U2''"
    by (simp_all add: domain_slack_def)
  from processMentions_no_left_boundary [OF a b c(1)] c(2) show ?thesis by simp
qed

section \<open>Scanning with a pattern\<close>






lemma toLowerCase_append [simp]: "toLowerCase (a @ b) = toLowerCase a @ toLowerCase b"
  by (simp add: toLowerCase_def)




section \<open>Collapsing newlines and trimming\<close>

lemma newline_not_dollar [simp]: "newline \<noteq> CHR ''$''"
  by (simp add: newline_def)

lemma newlines3_Some: "newlines3 s = Some n \<longleftrightarrow> n = lead s \<and> 3 \<le> lead s"
  by (auto simp: newlines3_def lead_def Let_def)

lemma newlines3_positive: "newlines3 s = Some n \<Longrightarrow> 0 < n"
  by (auto simp: newlines3_Some)



lemma lead_Nil [simp]: "lead [] = 0"
  by (simp add: lead_def)













section \<open>Image extraction\<close>










end
